theory Spec2Isabelle
  imports Main
begin

section \<open>Values shared by the packages\<close>

text \<open>
  A Go \<open>[]byte\<close> and a Go \<open>string\<close> are both sequences of bytes, and \<open>string(data)\<close>
  copies the bytes unchanged; both are \<open>char list\<close> here, and \<open>len\<close> is \<open>length\<close>
  (a count of bytes).
\<close>

type_synonym bytes = string

text \<open>
  Error values. \<open>Errorf m\<close> is \<open>fmt.Errorf(m)\<close> with no verb, \<open>Wrapf p e\<close> is
  \<open>fmt.Errorf(p + "%w", e)\<close>, \<open>MaxBytesError n\<close> is \<open>*http.MaxBytesError{Limit: n}\<close> and
  \<open>NumError f s e\<close> is \<open>*strconv.NumError{Func: f, Num: s, Err: e}\<close>.
\<close>

datatype error =
    Errorf string
  | Wrapf string error
  | MaxBytesError int
  | NumError string string error

definition ErrSyntax :: error where
  "ErrSyntax = Errorf ''invalid syntax''"

definition ErrRange :: error where
  "ErrRange = Errorf ''value out of range''"

text \<open>\<open>errors.As(err, &maxErr)\<close> with \<open>maxErr\<close> a \<open>*http.MaxBytesError\<close>: the chain of
  \<open>Unwrap\<close> is followed until a value of that type is found.\<close>

fun As_MaxBytesError :: "error \<Rightarrow> bool" where
  "As_MaxBytesError (Errorf m) = False"
| "As_MaxBytesError (Wrapf p e) = As_MaxBytesError e"
| "As_MaxBytesError (MaxBytesError n) = True"
| "As_MaxBytesError (NumError f s e) = As_MaxBytesError e"

text \<open>
  What a function does besides returning is recorded as a list of events, oldest first:
  the records handed to the logger (level, message, attributes), the calls of the encoding
  engine, the read of the request body, and the calls of the service.
\<close>

datatype level = DebugLevel | InfoLevel | WarnLevel | ErrorLevel

datatype attr = IntAttr int | StrAttr string | ErrAttr "error option"

datatype RecoveryLevel = Low | Medium | High | Highest

datatype event =
    LogRecord level string "(string \<times> attr) list"
  | EncodeCall string RecoveryLevel int
  | ReadAllCall int
  | ServiceCall bytes int

fun EncodeCalls :: "event list \<Rightarrow> (string \<times> RecoveryLevel \<times> int) list" where
  "EncodeCalls [] = []"
| "EncodeCalls (EncodeCall c l n # es) = (c, l, n) # EncodeCalls es"
| "EncodeCalls (e # es) = EncodeCalls es"

fun ServiceCalls :: "event list \<Rightarrow> (bytes \<times> int) list" where
  "ServiceCalls [] = []"
| "ServiceCalls (ServiceCall d n # es) = (d, n) # ServiceCalls es"
| "ServiceCalls (e # es) = ServiceCalls es"

fun ReadAllCalls :: "event list \<Rightarrow> int list" where
  "ReadAllCalls [] = []"
| "ReadAllCalls (ReadAllCall n # es) = n # ReadAllCalls es"
| "ReadAllCalls (e # es) = ReadAllCalls es"

text \<open>The string attributes logged under a given key, in order.\<close>

fun StrAttrs :: "string \<Rightarrow> (string \<times> attr) list \<Rightarrow> string list" where
  "StrAttrs k [] = []"
| "StrAttrs k ((k', StrAttr v) # as) = (if k' = k then v # StrAttrs k as else StrAttrs k as)"
| "StrAttrs k (a # as) = StrAttrs k as"

fun Logged :: "string \<Rightarrow> event list \<Rightarrow> string list" where
  "Logged k [] = []"
| "Logged k (LogRecord l m as # es) = StrAttrs k as @ Logged k es"
| "Logged k (e # es) = Logged k es"

text \<open>\<open>%d\<close> of \<open>fmt.Sprintf\<close>: the decimal digits, with a minus sign when negative.\<close>

fun digits :: "nat \<Rightarrow> string" where
  "digits n = (if n < 10 then [char_of (48 + n)]
               else digits (n div 10) @ [char_of (48 + n mod 10)])"

declare digits.simps [simp del]

definition Sprintf_d :: "int \<Rightarrow> string" where
  "Sprintf_d i = (if i < 0 then CHR ''-'' # digits (nat (- i)) else digits (nat i))"

section \<open>Package qr: the generation service\<close>

text \<open>
  The encoding engine \<open>qrcode.Encode(content, level, size)\<close> belongs to an external
  library; the service is modelled for any engine.
\<close>

type_synonym Encoder = "string \<Rightarrow> RecoveryLevel \<Rightarrow> int \<Rightarrow> error + bytes"

text \<open>
  \<open>truncateString(s, maxLen)\<close>. The source's \<open>maxLen\<close> is an \<open>int\<close>; its only call passes
  50, and a negative \<open>maxLen\<close>, at which \<open>s[:maxLen]\<close> panics, has no counterpart in \<open>nat\<close>.
\<close>

definition truncateString :: "string \<Rightarrow> nat \<Rightarrow> string" where
  "truncateString s maxLen =
     (if length s \<le> maxLen then s else take maxLen s @ ''...'')"

text \<open>\<open>(s *service) Generate(data, size)\<close>: the result and the events, in source order
  (\<open>sz\<close> is the source's \<open>size\<close>, a name HOL has taken).\<close>

definition Generate :: "Encoder \<Rightarrow> bytes \<Rightarrow> int \<Rightarrow> (error + bytes) \<times> event list" where
  "Generate Encode data sz =
     (let t0 = [LogRecord DebugLevel ''Starting QR code generation''
                  [(''data_length'', IntAttr (int (length data))), (''size'', IntAttr sz)]]
      in
      if length data = 0 then
        (Inl (Errorf ''data cannot be empty''),
         t0 @ [LogRecord WarnLevel ''QR code generation failed: empty data provided'' []])
      else if sz \<le> 0 \<or> sz > 2048 then
        (Inl (Errorf ''invalid size: must be between 1 and 2048''),
         t0 @ [LogRecord WarnLevel ''QR code generation failed: invalid size''
                 [(''size'', IntAttr sz), (''min'', IntAttr 1), (''max'', IntAttr 2048)]])
      else
        let t1 = t0 @ [LogRecord DebugLevel ''Encoding QR code''
                         [(''recovery_level'', StrAttr ''Medium''),
                          (''data_preview'', StrAttr (truncateString data 50))],
                       EncodeCall data Medium sz]
        in
        case Encode data Medium sz of
          Inl err \<Rightarrow>
            (Inl (Wrapf ''failed to encode QR code: '' err),
             t1 @ [LogRecord ErrorLevel ''Failed to encode QR code''
                     [(''error'', ErrAttr (Some err)),
                      (''data_length'', IntAttr (int (length data))),
                      (''size'', IntAttr sz)]])
        | Inr png \<Rightarrow>
            (Inr png,
             t1 @ [LogRecord DebugLevel ''QR code generated successfully''
                     [(''output_size_bytes'', IntAttr (int (length png))),
                      (''image_dimensions'',
                       StrAttr (Sprintf_d sz @ ''x'' @ Sprintf_d sz))]]))"

text \<open>
  A stand-in engine for concrete runs; it is not the library's encoder. It ignores the
  level and refuses, with the library's error "content too long to encode", only a
  content that no symbol can hold at any level (7089 characters is the capacity of the
  largest symbol in its densest mode); the library at the Medium level refuses earlier
  (from 2332 bytes, or 5597 digits). Otherwise it answers with some non-empty bytes, here
  the eight bytes of the PNG signature followed by the content. The examples below use
  it only on contents of at most 60 bytes or of more than 7089, where it and the library
  agree on success and failure.
\<close>

definition pngSignature :: bytes where
  "pngSignature = [CHR 0x89, CHR ''P'', CHR ''N'', CHR ''G'', CHR 0x0D, CHR 0x0A, CHR 0x1A, CHR 0x0A]"

definition stubEncode :: Encoder where
  "stubEncode content lvl sz =
     (if length content > 7089 then Inl (Errorf ''content too long to encode'')
      else Inr (pngSignature @ content))"

text \<open>\<open>NewService(logger)\<close>: the service is its one method; the logger is the event list.\<close>

definition NewService :: "Encoder \<Rightarrow> bytes \<Rightarrow> int \<Rightarrow> (error + bytes) \<times> event list" where
  "NewService Encode = Generate Encode"

section \<open>What the handler takes from the standard library\<close>

text \<open>
  \<open>strconv.Atoi\<close>, with \<open>int\<close> 64 bits wide. An optional sign, then decimal digits only
  and at least one; \<open>ParseUint\<close> is the digit loop of \<open>strconv.ParseUint(s, 10, 64)\<close>, which
  stops at the first byte that is no digit (a syntax error) or at the first digit that
  takes the value past \<open>2^64 - 1\<close> (a range error, with that maximum as the value). As in
  Go, \<open>Atoi\<close> returns a value together with the error.
\<close>

fun ParseUint :: "string \<Rightarrow> nat \<Rightarrow> nat \<times> error option" where
  "ParseUint [] n = (n, None)"
| "ParseUint (c # cs) n =
     (let d = (of_char c :: nat)
      in if d < 48 \<or> 57 < d then (0, Some ErrSyntax)
         else if 2 ^ 64 - 1 < n * 10 + (d - 48) then (2 ^ 64 - 1, Some ErrRange)
         else ParseUint cs (n * 10 + (d - 48)))"

definition Atoi :: "string \<Rightarrow> int \<times> error option" where
  "Atoi s0 =
     (let neg = (case s0 of [] \<Rightarrow> False | c # cs \<Rightarrow> c = CHR ''-'');
          s = (case s0 of [] \<Rightarrow> s0
               | c # cs \<Rightarrow> if c = CHR ''+'' \<or> c = CHR ''-'' then cs else s0)
      in if s = [] then (0, Some (NumError ''Atoi'' s0 ErrSyntax))
         else
           let (un, err) = ParseUint s 0
           in if err = Some ErrSyntax then (0, Some (NumError ''Atoi'' s0 ErrSyntax))
              else if \<not> neg \<and> 2 ^ 63 \<le> un
                then (2 ^ 63 - 1, Some (NumError ''Atoi'' s0 ErrRange))
              else if neg \<and> 2 ^ 63 < un
                then (- (2 ^ 63), Some (NumError ''Atoi'' s0 ErrRange))
              else (if neg then - int un else int un, None))"

text \<open>
  \<open>r.URL.Query()\<close> is given as the key/value pairs of the query string in their order;
  \<open>Get\<close> of \<open>url.Values\<close> returns the first value of the key, and the empty string when the
  key has none.
\<close>

definition Get :: "(string \<times> string) list \<Rightarrow> string \<Rightarrow> string" where
  "Get v key = (case map_of v key of None \<Rightarrow> [] | Some x \<Rightarrow> x)"

text \<open>
  \<open>io.ReadAll\<close> on \<open>http.MaxBytesReader(w, r.Body, n)\<close>. The body is the bytes its stream
  delivers and the error that ends the stream (none when it ends in EOF). The reader
  takes a negative limit as 0, fails with a \<open>MaxBytesError\<close> as soon as the stream gives
  more bytes than the limit, and otherwise passes on what the stream gives.
\<close>

definition ReadAll_MaxBytesReader :: "int \<Rightarrow> bytes \<Rightarrow> error option \<Rightarrow> error + bytes" where
  "ReadAll_MaxBytesReader n content err =
     (let limit = (if n < 0 then 0 else n)
      in if limit < int (length content) then Inl (MaxBytesError limit)
         else case err of Some e \<Rightarrow> Inl e | None \<Rightarrow> Inr content)"

text \<open>
  A response is what the handler hands to the \<open>http.ResponseWriter\<close>: the status, the
  headers it sets, the bytes it writes. The writer itself is the error its \<open>Write\<close>
  returns. \<open>http.Error\<close> sends a plain-text message ended by a newline.
\<close>

record Response =
  StatusCode :: int
  Header :: "(string \<times> string) list"
  Written :: bytes

record ResponseWriter =
  WriteErr :: "error option"

definition http_Error :: "string \<Rightarrow> int \<Rightarrow> Response" where
  "http_Error msg code =
     \<lparr>StatusCode = code,
      Header = [(''Content-Type'', ''text/plain; charset=utf-8''),
                (''X-Content-Type-Options'', ''nosniff'')],
      Written = msg @ [CHR 0x0A]\<rparr>"

record Request =
  Method :: string
  RemoteAddr :: string
  UserAgent :: string
  ContentLength :: int
  Query :: "(string \<times> string) list"
  Body :: bytes
  BodyErr :: "error option"

section \<open>Package http: the request handler\<close>

record Handler =
  svc :: "bytes \<Rightarrow> int \<Rightarrow> (error + bytes) \<times> event list"
  maxBodySize :: int

definition NewHandler ::
  "(bytes \<Rightarrow> int \<Rightarrow> (error + bytes) \<times> event list) \<Rightarrow> int \<Rightarrow> Handler" where
  "NewHandler s n = \<lparr>svc = s, maxBodySize = n\<rparr>"

text \<open>
  \<open>(h *Handler) Generate\<close> from the call of the service to its end (both branches of the
  size parameter continue here): \<open>t\<close> is the events so far.
\<close>

definition Handler_Generate_respond ::
  "Handler \<Rightarrow> ResponseWriter \<Rightarrow> Request \<Rightarrow> bytes \<Rightarrow> int \<Rightarrow> event list \<Rightarrow> Response \<times> event list" where
  "Handler_Generate_respond h w r body sz t =
     (let t1 = t @ [LogRecord DebugLevel ''Calling QR generation service''
                      [(''data_length'', IntAttr (int (length body))), (''size'', IntAttr sz)],
                    ServiceCall body sz];
          (res, ts) = svc h body sz;
          t2 = t1 @ ts
      in
      case res of
        Inl err \<Rightarrow>
          (http_Error ''Internal server error'' 500,
           t2 @ [LogRecord ErrorLevel ''failed to generate QR code''
                   [(''error'', ErrAttr (Some err)),
                    (''data_length'', IntAttr (int (length body))),
                    (''size'', IntAttr sz),
                    (''remote_addr'', StrAttr (RemoteAddr r))]])
      | Inr png \<Rightarrow>
          let t3 = t2 @ [LogRecord DebugLevel ''QR code generated successfully''
                           [(''png_size'', IntAttr (int (length png))),
                            (''remote_addr'', StrAttr (RemoteAddr r))]];
              resp = \<lparr>StatusCode = 200, Header = [(''Content-Type'', ''image/png'')],
                      Written = png\<rparr>
          in
          case WriteErr w of
            Some err \<Rightarrow>
              (resp,
               t3 @ [LogRecord ErrorLevel ''failed to write response''
                       [(''error'', ErrAttr (Some err)),
                        (''png_size'', IntAttr (int (length png))),
                        (''remote_addr'', StrAttr (RemoteAddr r))]])
          | None \<Rightarrow>
              (resp,
               t3 @ [LogRecord InfoLevel ''QR code request completed successfully''
                       [(''data_length'', IntAttr (int (length body))),
                        (''size'', IntAttr sz),
                        (''output_size'', IntAttr (int (length png))),
                        (''remote_addr'', StrAttr (RemoteAddr r))]]))"

text \<open>\<open>(h *Handler) Generate(w, r)\<close>, in source order.\<close>

definition Handler_Generate ::
  "Handler \<Rightarrow> ResponseWriter \<Rightarrow> Request \<Rightarrow> Response \<times> event list" where
  "Handler_Generate h w r =
     (let t0 = [LogRecord DebugLevel ''Received QR generation request''
                  [(''method'', StrAttr (Method r)),
                   (''remote_addr'', StrAttr (RemoteAddr r)),
                   (''user_agent'', StrAttr (UserAgent r)),
                   (''content_length'', IntAttr (ContentLength r))]]
      in
      if Method r \<noteq> ''POST'' then
        (http_Error ''Method not allowed'' 405,
         t0 @ [LogRecord WarnLevel ''Method not allowed''
                 [(''method'', StrAttr (Method r)), (''expected'', StrAttr ''POST''),
                  (''remote_addr'', StrAttr (RemoteAddr r))]])
      else
        let t1 = t0 @ [LogRecord DebugLevel ''Reading request body''
                         [(''max_size'', IntAttr (maxBodySize h))],
                       ReadAllCall (maxBodySize h)]
        in
        case ReadAll_MaxBytesReader (maxBodySize h) (Body r) (BodyErr r) of
          Inl err \<Rightarrow>
            let t2 = t1 @ [LogRecord ErrorLevel ''failed to read request body''
                             [(''error'', ErrAttr (Some err)),
                              (''remote_addr'', StrAttr (RemoteAddr r))]]
            in
            if As_MaxBytesError err then
              (http_Error ''Request body too large'' 413,
               t2 @ [LogRecord WarnLevel ''Request body too large''
                       [(''max_allowed'', IntAttr (maxBodySize h)),
                        (''remote_addr'', StrAttr (RemoteAddr r))]])
            else (http_Error ''Failed to read request body'' 500, t2)
        | Inr body \<Rightarrow>
            let t2 = t1 @ [LogRecord DebugLevel ''Request body read successfully''
                             [(''body_size'', IntAttr (int (length body)))]]
            in
            if length body = 0 then
              (http_Error ''Request body is empty'' 400,
               t2 @ [LogRecord WarnLevel ''Empty request body received''
                       [(''remote_addr'', StrAttr (RemoteAddr r))]])
            else
              let sizeStr = Get (Query r) ''size''
              in
              if sizeStr \<noteq> [] then
                let t3 = t2 @ [LogRecord DebugLevel ''Parsing size parameter''
                                 [(''size_str'', StrAttr sizeStr)]];
                    (parsedSize, err) = Atoi sizeStr
                in
                if err \<noteq> None \<or> parsedSize \<le> 0 \<or> parsedSize > 2048 then
                  (http_Error ''Invalid size parameter: must be between 1 and 2048'' 400,
                   t3 @ [LogRecord WarnLevel ''Invalid size parameter''
                           [(''size_str'', StrAttr sizeStr), (''error'', ErrAttr err),
                            (''min'', IntAttr 1), (''max'', IntAttr 2048),
                            (''remote_addr'', StrAttr (RemoteAddr r))]])
                else
                  Handler_Generate_respond h w r body parsedSize
                    (t3 @ [LogRecord DebugLevel ''Size parameter parsed''
                             [(''size'', IntAttr parsedSize)]])
              else
                Handler_Generate_respond h w r body 256
                  (t2 @ [LogRecord DebugLevel ''Using default size''
                           [(''size'', IntAttr 256)]]))"

text \<open>
  \<open>(h *Handler) HealthCheck(w, r)\<close>. The body is what \<open>json.NewEncoder(w).Encode\<close> writes
  for the map \<open>{"status": "ok"}\<close>: the JSON text and the newline that ends it.
\<close>

definition HealthCheck ::
  "Handler \<Rightarrow> ResponseWriter \<Rightarrow> Request \<Rightarrow> Response \<times> event list" where
  \<open>HealthCheck h w r =
     (let t0 = [LogRecord DebugLevel ''Health check request received''
                  [(''method'', StrAttr (Method r)),
                   (''remote_addr'', StrAttr (RemoteAddr r))]];
          resp = \<lparr>StatusCode = 200, Header = [(''Content-Type'', ''application/json'')],
                  Written = ''{"status":"ok"}'' @ [CHR 0x0A]\<rparr>
      in
      case WriteErr w of
        Some err \<Rightarrow>
          (resp,
           t0 @ [LogRecord ErrorLevel ''failed to encode health check response''
                   [(''error'', ErrAttr (Some err)),
                    (''remote_addr'', StrAttr (RemoteAddr r))]])
      | None \<Rightarrow> (resp, t0))\<close>

section \<open>Concrete values for the worked examples\<close>

text \<open>
  The handler as \<open>main\<close> builds it, with the stand-in engine and a body limit of 1 MiB;
  a response writer whose \<open>Write\<close> succeeds; and a request of a given method, query and
  body whose stream ends in EOF.
\<close>

definition exampleHandler :: Handler where
  "exampleHandler = NewHandler (NewService stubEncode) 1048576"

definition okWriter :: ResponseWriter where
  "okWriter = \<lparr>WriteErr = None\<rparr>"

definition exampleRequest :: "string \<Rightarrow> (string \<times> string) list \<Rightarrow> bytes \<Rightarrow> Request" where
  "exampleRequest m q b =
     \<lparr>Method = m, RemoteAddr = ''192.0.2.7:51324'', UserAgent = ''curl/8.5.0'',
      ContentLength = int (length b), Query = q, Body = b, BodyErr = None\<rparr>"

section \<open>Calls recorded in the events\<close>

lemma ServiceCalls_append: "ServiceCalls (xs @ ys) = ServiceCalls xs @ ServiceCalls ys"
  by (induction xs rule: ServiceCalls.induct) simp_all

lemma EncodeCalls_append: "EncodeCalls (xs @ ys) = EncodeCalls xs @ EncodeCalls ys"
  by (induction xs rule: EncodeCalls.induct) simp_all

lemma ReadAllCalls_append: "ReadAllCalls (xs @ ys) = ReadAllCalls xs @ ReadAllCalls ys"
  by (induction xs rule: ReadAllCalls.induct) simp_all

lemma ServiceCalls_Generate: "ServiceCalls (snd (Generate Encode data sz)) = []"
  by (simp add: Generate_def Let_def split: sum.split)

lemma EncodeCalls_Generate:
  "EncodeCalls (snd (Generate Encode data sz))
     = (if data = [] \<or> sz \<le> 0 \<or> sz > 2048 then [] else [(data, Medium, sz)])"
  by (simp add: Generate_def Let_def split: sum.split)

lemma fst_respond:
  "fst (Handler_Generate_respond h w r body sz t)
     = (case fst (svc h body sz) of
          Inl err \<Rightarrow> http_Error ''Internal server error'' 500
        | Inr png \<Rightarrow> \<lparr>StatusCode = 200, Header = [(''Content-Type'', ''image/png'')],
                       Written = png\<rparr>)"
  by (simp add: Handler_Generate_respond_def Let_def split: prod.split sum.split option.split)

lemma ServiceCalls_respond:
  "ServiceCalls (snd (Handler_Generate_respond h w r body sz t))
     = ServiceCalls t @ (body, sz) # ServiceCalls (snd (svc h body sz))"
  by (simp add: Handler_Generate_respond_def Let_def ServiceCalls_append
      split: prod.split sum.split option.split)

lemma EncodeCalls_respond:
  "EncodeCalls (snd (Handler_Generate_respond h w r body sz t))
     = EncodeCalls t @ EncodeCalls (snd (svc h body sz))"
  by (simp add: Handler_Generate_respond_def Let_def EncodeCalls_append
      split: prod.split sum.split option.split)

lemma ServiceCalls_Handler_Generate_in_range:
  "list_all (\<lambda>(d, k). 1 \<le> k \<and> k \<le> 2048)
     (ServiceCalls (snd (Handler_Generate (NewHandler (NewService Encode) n) w r)))"
  by (simp add: Handler_Generate_def Let_def NewHandler_def NewService_def
      ServiceCalls_respond ServiceCalls_Generate
      split: sum.split prod.split)

lemma EncodeCalls_Handler_Generate_in_range:
  "list_all (\<lambda>(c, l, k). 1 \<le> k \<and> k \<le> 2048)
     (EncodeCalls (snd (Handler_Generate (NewHandler (NewService Encode) n) w r)))"
  by (simp add: Handler_Generate_def Let_def NewHandler_def NewService_def
      EncodeCalls_respond EncodeCalls_Generate
      split: sum.split prod.split)

lemma map_of_filter_key: "map_of (filter (\<lambda>(k, v). k \<noteq> a) q) a = None"
  by (induction q) auto

lemma respond_Query_update:
  "Handler_Generate_respond h w (r\<lparr>Query := q\<rparr>) body sz t
     = Handler_Generate_respond h w r body sz t"
  by (simp add: Handler_Generate_respond_def Let_def split: prod.split sum.split option.split)

lemma Atoi_boundaries: "Atoi ''1'' = (1, None) \<and> Atoi ''2048'' = (2048, None)"
  by (simp add: Atoi_def)

section \<open>The generation service: validation\<close>

text \<open>
  Claim C4. For an empty payload and every size, \<open>Generate\<close> returns the error
  "data cannot be empty" (the spec's InvalidInput; the source has plain \<open>fmt.Errorf\<close>
  errors and no error types) and makes no call to the encoding engine.
\<close>

theorem Generate_empty_payload:
  "fst (Generate Encode [] sz) = Inl (Errorf ''data cannot be empty'')
   \<and> EncodeCalls (snd (Generate Encode [] sz)) = []"
  by (simp add: Generate_def Let_def)

text \<open>
  Claim C3, as amended. For every size \<open>\<le> 0\<close> or \<open>> 2048\<close> and every payload, \<open>Generate\<close>
  returns an error and makes no call to the encoding engine; for every non-empty payload
  the error is "invalid size: must be between 1 and 2048" (the spec's InvalidInput). The
  payload is checked first, so the empty payload gets "data cannot be empty" whatever the
  size.
\<close>

theorem Generate_invalid_size:
  assumes "sz \<le> 0 \<or> sz > 2048"
  shows "EncodeCalls (snd (Generate Encode data sz)) = []
    \<and> isl (fst (Generate Encode data sz))
    \<and> (data \<noteq> [] \<longrightarrow>
         fst (Generate Encode data sz) = Inl (Errorf ''invalid size: must be between 1 and 2048''))
    \<and> (data = [] \<longrightarrow> fst (Generate Encode data sz) = Inl (Errorf ''data cannot be empty''))"
  using assms by (auto simp add: Generate_def Let_def)

theorem Generate_invalid_size_witness:
  "EncodeCalls (snd (Generate stubEncode ''https://example.com'' 5000)) = []
    \<and> isl (fst (Generate stubEncode ''https://example.com'' 5000))
    \<and> fst (Generate stubEncode ''https://example.com'' 5000)
        = Inl (Errorf ''invalid size: must be between 1 and 2048'')"
  using Generate_invalid_size [of 5000 stubEncode "''https://example.com''"] by simp

text \<open>
  The claim as the spec words it fails at the empty payload with size 0: the error is the
  one of the payload check, not "invalid size: must be between 1 and 2048".
\<close>

theorem Generate_invalid_size_counterexample:
  "(0::int) \<le> 0
   \<and> fst (Generate stubEncode [] 0) = Inl (Errorf ''data cannot be empty'')
   \<and> fst (Generate stubEncode [] 0) \<noteq> Inl (Errorf ''invalid size: must be between 1 and 2048'')"
  by (simp add: Generate_def Let_def)

section \<open>The generation service: delegation to the engine\<close>

text \<open>
  Claim C1, as amended. For every non-empty payload and every size in [1, 2048],
  \<open>Generate\<close> calls the encoding engine exactly once, with the payload, the Medium level
  and the requested size. When the engine succeeds, \<open>Generate\<close> returns the engine's bytes
  verbatim and no error (so the result is non-empty exactly when the engine's is); when
  the engine fails, \<open>Generate\<close> returns the error "failed to encode QR code: ..." wrapping
  the engine's.
\<close>

theorem Generate_valid_input:
  assumes "data \<noteq> []" and "1 \<le> sz" and "sz \<le> 2048"
  shows "EncodeCalls (snd (Generate Encode data sz)) = [(data, Medium, sz)]
    \<and> fst (Generate Encode data sz)
        = (case Encode data Medium sz of
             Inl err \<Rightarrow> Inl (Wrapf ''failed to encode QR code: '' err)
           | Inr png \<Rightarrow> Inr png)"
  using assms by (simp add: Generate_def Let_def split: sum.split)

theorem Generate_valid_input_witness:
  "EncodeCalls (snd (Generate stubEncode ''https://example.com'' 128))
     = [(''https://example.com'', Medium, 128)]
   \<and> fst (Generate stubEncode ''https://example.com'' 128)
     = Inr (pngSignature @ ''https://example.com'')"
  using Generate_valid_input [of "''https://example.com''" 128 stubEncode]
  by (simp add: stubEncode_def)

text \<open>
  The claim as the spec words it promises an image and no error for every non-empty
  payload. The engine refuses a payload no symbol can hold, and \<open>Generate\<close> passes the
  refusal on: 7090 bytes at size 256 end in an error.
\<close>

theorem Generate_valid_input_counterexample:
  "replicate 7090 (CHR ''a'') \<noteq> [] \<and> (1::int) \<le> 256 \<and> (256::int) \<le> 2048
   \<and> fst (Generate stubEncode (replicate 7090 (CHR ''a'')) 256)
     = Inl (Wrapf ''failed to encode QR code: '' (Errorf ''content too long to encode''))"
  by (simp add: Generate_def Let_def stubEncode_def)

section \<open>The generation service: the payload preview\<close>

lemma length_truncateString: "length (truncateString s n) \<le> n + 3"
  by (simp add: truncateString_def)

text \<open>
  Claim C8, as amended. The preview of the payload in the events of \<open>Generate\<close>, the
  attribute \<open>data_preview\<close>, is logged once, when both checks pass, and it is
  \<open>truncateString\<close> of the payload at 50: the payload itself when it has at most 50
  bytes, and otherwise its first 50 bytes followed by "...". So the preview is never
  longer than 53 bytes, carries no byte of the payload beyond the first 50, and is
  shorter than every payload longer than 53 bytes. Lengths are in bytes, as \<open>len\<close> counts.
\<close>

theorem Generate_preview_cap:
  "Logged ''data_preview'' (snd (Generate Encode data sz))
     = (if data = [] \<or> sz \<le> 0 \<or> sz > 2048 then [] else [truncateString data 50])
   \<and> length (truncateString data 50) \<le> 53
   \<and> (length data \<le> 50 \<longrightarrow> truncateString data 50 = data)
   \<and> (50 < length data \<longrightarrow> truncateString data 50 = take 50 data @ ''...'')
   \<and> (53 < length data \<longrightarrow> length (truncateString data 50) < length data)"
proof -
  have "Logged ''data_preview'' (snd (Generate Encode data sz))
     = (if data = [] \<or> sz \<le> 0 \<or> sz > 2048 then [] else [truncateString data 50])"
    by (simp add: Generate_def Let_def split: sum.split)
  moreover have "length (truncateString data 50) \<le> 53"
    using length_truncateString [of data 50] by simp
  moreover have "length data \<le> 50 \<longrightarrow> truncateString data 50 = data"
    by (simp add: truncateString_def)
  moreover have "50 < length data \<longrightarrow> truncateString data 50 = take 50 data @ ''...''"
    by (simp add: truncateString_def)
  moreover have "53 < length data \<longrightarrow> length (truncateString data 50) < length data"
    by (simp add: truncateString_def)
  ultimately show ?thesis by blast
qed

theorem Generate_preview_cap_witness:
  "Logged ''data_preview'' (snd (Generate stubEncode (replicate 60 (CHR ''a'')) 256))
     = [replicate 50 (CHR ''a'') @ ''...'']
   \<and> length (truncateString (replicate 60 (CHR ''a'')) 50) \<le> 53
   \<and> length (truncateString (replicate 60 (CHR ''a'')) 50) < 60"
  using Generate_preview_cap [of stubEncode "replicate 60 (CHR ''a'')" 256]
  by simp

text \<open>
  The claim as the spec words it caps the preview at 50 characters and keeps every
  payload longer than that out of it. The payload of 50 letters followed by three dots
  is 53 bytes long, and its preview is the payload itself, all 53 bytes.
\<close>

theorem Generate_preview_cap_counterexample:
  "Logged ''data_preview'' (snd (Generate stubEncode (replicate 50 (CHR ''a'') @ ''...'') 256))
     = [replicate 50 (CHR ''a'') @ ''...'']
   \<and> length (replicate 50 (CHR ''a'') @ ''...'') = 53"
  by (simp add: Generate_def Let_def stubEncode_def truncateString_def)

section \<open>The request handler: method and body\<close>

text \<open>
  Claim C6. For every request to \<open>/generate\<close> with a method other than POST, the handler
  answers 405 ("Method not allowed") and never reads the request body: no read, hence no
  size limit at work, and no call of the service.
\<close>

theorem Handler_Generate_method_not_allowed:
  assumes "Method r \<noteq> ''POST''"
  shows "fst (Handler_Generate h w r) = http_Error ''Method not allowed'' 405
    \<and> StatusCode (fst (Handler_Generate h w r)) = 405
    \<and> ReadAllCalls (snd (Handler_Generate h w r)) = []
    \<and> ServiceCalls (snd (Handler_Generate h w r)) = []"
  using assms by (simp add: Handler_Generate_def Let_def http_Error_def)

theorem Handler_Generate_method_not_allowed_witness:
  "fst (Handler_Generate exampleHandler okWriter (exampleRequest ''GET'' [] ''https://example.com''))
     = http_Error ''Method not allowed'' 405
   \<and> ReadAllCalls (snd (Handler_Generate exampleHandler okWriter
        (exampleRequest ''GET'' [] ''https://example.com''))) = []
   \<and> ServiceCalls (snd (Handler_Generate exampleHandler okWriter
        (exampleRequest ''GET'' [] ''https://example.com''))) = []"
  using Handler_Generate_method_not_allowed
    [of "exampleRequest ''GET'' [] ''https://example.com''" exampleHandler okWriter]
  by (simp add: exampleRequest_def)

text \<open>
  Claim C5. For every POST request to \<open>/generate\<close> whose body is longer than the configured
  maximum body size (a size: not negative), the handler answers 413 ("Request body too
  large") and the service is never called; a read of the body that fails with any other
  error (one in whose chain \<open>errors.As\<close> finds no \<open>MaxBytesError\<close>) is answered 500, the
  service not called either.
\<close>

theorem Handler_Generate_body_too_large:
  assumes "Method r = ''POST''"
  shows "(0 \<le> maxBodySize h \<and> maxBodySize h < int (length (Body r)) \<longrightarrow>
            fst (Handler_Generate h w r) = http_Error ''Request body too large'' 413
          \<and> StatusCode (fst (Handler_Generate h w r)) = 413
          \<and> ServiceCalls (snd (Handler_Generate h w r)) = [])
    \<and> (ReadAll_MaxBytesReader (maxBodySize h) (Body r) (BodyErr r) = Inl e
          \<and> \<not> As_MaxBytesError e \<longrightarrow>
            fst (Handler_Generate h w r) = http_Error ''Failed to read request body'' 500
          \<and> StatusCode (fst (Handler_Generate h w r)) = 500
          \<and> ServiceCalls (snd (Handler_Generate h w r)) = [])"
proof (intro conjI impI)
  assume big: "0 \<le> maxBodySize h \<and> maxBodySize h < int (length (Body r))"
  then have rd: "ReadAll_MaxBytesReader (maxBodySize h) (Body r) (BodyErr r)
      = Inl (MaxBytesError (maxBodySize h))"
    by (simp add: ReadAll_MaxBytesReader_def)
  show "fst (Handler_Generate h w r) = http_Error ''Request body too large'' 413"
    using assms rd by (simp add: Handler_Generate_def Let_def)
  then show "StatusCode (fst (Handler_Generate h w r)) = 413"
    by (simp add: http_Error_def)
  show "ServiceCalls (snd (Handler_Generate h w r)) = []"
    using assms rd by (simp add: Handler_Generate_def Let_def)
next
  assume other: "ReadAll_MaxBytesReader (maxBodySize h) (Body r) (BodyErr r) = Inl e
      \<and> \<not> As_MaxBytesError e"
  show "fst (Handler_Generate h w r) = http_Error ''Failed to read request body'' 500"
    using assms other by (simp add: Handler_Generate_def Let_def)
  then show "StatusCode (fst (Handler_Generate h w r)) = 500"
    by (simp add: http_Error_def)
  show "ServiceCalls (snd (Handler_Generate h w r)) = []"
    using assms other by (simp add: Handler_Generate_def Let_def)
qed

theorem Handler_Generate_body_too_large_witness:
  "fst (Handler_Generate (NewHandler (NewService stubEncode) 10) okWriter
      (exampleRequest ''POST'' [] ''hello world''))
     = http_Error ''Request body too large'' 413
   \<and> ServiceCalls (snd (Handler_Generate (NewHandler (NewService stubEncode) 10) okWriter
      (exampleRequest ''POST'' [] ''hello world''))) = []
   \<and> fst (Handler_Generate (NewHandler (NewService stubEncode) 10) okWriter
      ((exampleRequest ''POST'' [] ''hello'')\<lparr>BodyErr := Some (Errorf ''unexpected EOF'')\<rparr>))
     = http_Error ''Failed to read request body'' 500"
proof -
  let ?h = "NewHandler (NewService stubEncode) 10"
  let ?r1 = "exampleRequest ''POST'' [] ''hello world''"
  let ?r2 = "(exampleRequest ''POST'' [] ''hello'')\<lparr>BodyErr := Some (Errorf ''unexpected EOF'')\<rparr>"
  have post1: "Method ?r1 = ''POST''" and post2: "Method ?r2 = ''POST''"
    by (simp_all add: exampleRequest_def)
  have big: "0 \<le> maxBodySize ?h \<and> maxBodySize ?h < int (length (Body ?r1))"
    by (simp add: NewHandler_def exampleRequest_def)
  have broken: "ReadAll_MaxBytesReader (maxBodySize ?h) (Body ?r2) (BodyErr ?r2)
        = Inl (Errorf ''unexpected EOF'')
      \<and> \<not> As_MaxBytesError (Errorf ''unexpected EOF'')"
    by (simp add: NewHandler_def exampleRequest_def ReadAll_MaxBytesReader_def)
  from Handler_Generate_body_too_large [where h = ?h and w = okWriter, OF post1] big
  have first: "fst (Handler_Generate ?h okWriter ?r1) = http_Error ''Request body too large'' 413
      \<and> ServiceCalls (snd (Handler_Generate ?h okWriter ?r1)) = []"
    by blast
  from Handler_Generate_body_too_large
    [where h = ?h and w = okWriter and e = "Errorf ''unexpected EOF''", OF post2] broken
  have second: "fst (Handler_Generate ?h okWriter ?r2)
      = http_Error ''Failed to read request body'' 500"
    by blast
  from first second show ?thesis by blast
qed

text \<open>
  Claim C7. For every POST request to \<open>/generate\<close> whose body is read with no error and has
  zero bytes, the handler answers 400 and writes the message "Request body is empty"
  (ended by the newline of \<open>http.Error\<close>); status and message both differ from the answer
  to a body that is too large (413, "Request body too large"), and the service is not
  called.
\<close>

theorem Handler_Generate_empty_body:
  assumes "Method r = ''POST''"
    and "ReadAll_MaxBytesReader (maxBodySize h) (Body r) (BodyErr r) = Inr []"
  shows "fst (Handler_Generate h w r) = http_Error ''Request body is empty'' 400
    \<and> StatusCode (fst (Handler_Generate h w r)) = 400
    \<and> Written (fst (Handler_Generate h w r)) = ''Request body is empty'' @ [CHR 0x0A]
    \<and> StatusCode (fst (Handler_Generate h w r)) \<noteq> 413
    \<and> Written (fst (Handler_Generate h w r)) \<noteq> ''Request body too large'' @ [CHR 0x0A]
    \<and> fst (Handler_Generate h w r) \<noteq> http_Error ''Request body too large'' 413
    \<and> ServiceCalls (snd (Handler_Generate h w r)) = []"
proof -
  have answer: "fst (Handler_Generate h w r) = http_Error ''Request body is empty'' 400"
    using assms by (simp add: Handler_Generate_def Let_def)
  have status: "StatusCode (fst (Handler_Generate h w r)) = 400"
    using assms by (simp add: Handler_Generate_def Let_def http_Error_def)
  have message: "Written (fst (Handler_Generate h w r)) = ''Request body is empty'' @ [CHR 0x0A]"
    using assms by (simp add: Handler_Generate_def Let_def http_Error_def)
  have not_413: "StatusCode (fst (Handler_Generate h w r)) \<noteq> 413"
    using status by simp
  have other_message:
    "Written (fst (Handler_Generate h w r)) \<noteq> ''Request body too large'' @ [CHR 0x0A]"
    using message by simp
  have other_answer: "fst (Handler_Generate h w r) \<noteq> http_Error ''Request body too large'' 413"
    using status by (auto simp add: http_Error_def)
  have no_call: "ServiceCalls (snd (Handler_Generate h w r)) = []"
    using assms by (simp add: Handler_Generate_def Let_def)
  from answer status message not_413 other_message other_answer no_call
  show ?thesis by blast
qed

theorem Handler_Generate_empty_body_witness:
  "StatusCode (fst (Handler_Generate exampleHandler okWriter (exampleRequest ''POST'' [] [])))
     = 400
   \<and> Written (fst (Handler_Generate exampleHandler okWriter (exampleRequest ''POST'' [] [])))
     = ''Request body is empty'' @ [CHR 0x0A]
   \<and> ServiceCalls (snd (Handler_Generate exampleHandler okWriter
        (exampleRequest ''POST'' [] []))) = []"
proof -
  have post: "Method (exampleRequest ''POST'' [] []) = ''POST''"
    by (simp add: exampleRequest_def)
  have read: "ReadAll_MaxBytesReader (maxBodySize exampleHandler)
      (Body (exampleRequest ''POST'' [] [])) (BodyErr (exampleRequest ''POST'' [] [])) = Inr []"
    by (simp add: exampleRequest_def exampleHandler_def NewHandler_def
        ReadAll_MaxBytesReader_def)
  from Handler_Generate_empty_body [OF post read, of okWriter]
  show ?thesis by blast
qed

section \<open>The request handler: the size parameter\<close>

text \<open>
  Claim C2, as amended. In the handler's \<open>Generate\<close>, once the checks of the method and
  of the body have passed (a POST request whose body is read with no error and is not
  empty): when the query has no \<open>size\<close> parameter the size is 256;
  when the parameter has a non-empty value, the value is parsed as a decimal integer, and
  a parse failure or a value outside [1, 2048] is answered 400 before the service is
  called (neither the service nor the engine is called), while a value in [1, 2048] is
  the size the service is called with. The boundaries 1 and 2048 parse and are accepted.
  For every request whatever, each size the service or the engine is called with lies in
  [1, 2048]. (A parameter that is present with an empty value is not parsed: it is the
  subject of claim C10.)
\<close>

theorem Handler_Generate_size_parameter:
  fixes Encode n w r
  defines "res \<equiv> Handler_Generate (NewHandler (NewService Encode) n) w r"
    and "sizeStr \<equiv> Get (Query r) ''size''"
  shows "(Method r = ''POST'' \<and> ReadAll_MaxBytesReader n (Body r) (BodyErr r) = Inr body
          \<and> body \<noteq> [] \<longrightarrow>
            (map_of (Query r) ''size'' = None \<longrightarrow>
                ServiceCalls (snd res) = [(body, 256)]
              \<and> EncodeCalls (snd res) = [(body, Medium, 256)])
          \<and> (sizeStr \<noteq> []
              \<and> (snd (Atoi sizeStr) \<noteq> None \<or> fst (Atoi sizeStr) \<le> 0 \<or> 2048 < fst (Atoi sizeStr))
              \<longrightarrow> fst res = http_Error ''Invalid size parameter: must be between 1 and 2048'' 400
                \<and> StatusCode (fst res) = 400
                \<and> ServiceCalls (snd res) = [] \<and> EncodeCalls (snd res) = [])
          \<and> (sizeStr \<noteq> [] \<and> snd (Atoi sizeStr) = None
              \<and> 1 \<le> fst (Atoi sizeStr) \<and> fst (Atoi sizeStr) \<le> 2048
              \<longrightarrow> ServiceCalls (snd res) = [(body, fst (Atoi sizeStr))]
                \<and> EncodeCalls (snd res) = [(body, Medium, fst (Atoi sizeStr))]))
    \<and> Atoi ''1'' = (1, None) \<and> Atoi ''2048'' = (2048, None)
    \<and> list_all (\<lambda>(d, k). 1 \<le> k \<and> k \<le> 2048) (ServiceCalls (snd res))
    \<and> list_all (\<lambda>(c, l, k). 1 \<le> k \<and> k \<le> 2048) (EncodeCalls (snd res))"
proof -
  have stage: "Method r = ''POST'' \<and> ReadAll_MaxBytesReader n (Body r) (BodyErr r) = Inr body
          \<and> body \<noteq> [] \<longrightarrow>
            (map_of (Query r) ''size'' = None \<longrightarrow>
                ServiceCalls (snd res) = [(body, 256)]
              \<and> EncodeCalls (snd res) = [(body, Medium, 256)])
          \<and> (sizeStr \<noteq> []
              \<and> (snd (Atoi sizeStr) \<noteq> None \<or> fst (Atoi sizeStr) \<le> 0 \<or> 2048 < fst (Atoi sizeStr))
              \<longrightarrow> fst res = http_Error ''Invalid size parameter: must be between 1 and 2048'' 400
                \<and> StatusCode (fst res) = 400
                \<and> ServiceCalls (snd res) = [] \<and> EncodeCalls (snd res) = [])
          \<and> (sizeStr \<noteq> [] \<and> snd (Atoi sizeStr) = None
              \<and> 1 \<le> fst (Atoi sizeStr) \<and> fst (Atoi sizeStr) \<le> 2048
              \<longrightarrow> ServiceCalls (snd res) = [(body, fst (Atoi sizeStr))]
                \<and> EncodeCalls (snd res) = [(body, Medium, fst (Atoi sizeStr))])"
    unfolding res_def sizeStr_def
    by (auto simp add: Handler_Generate_def Let_def NewHandler_def NewService_def Get_def
        ServiceCalls_respond ServiceCalls_Generate EncodeCalls_respond EncodeCalls_Generate
        http_Error_def
        split: prod.split)
  show ?thesis
    using stage Atoi_boundaries
      ServiceCalls_Handler_Generate_in_range [of Encode n w r]
      EncodeCalls_Handler_Generate_in_range [of Encode n w r]
    unfolding res_def by blast
qed

theorem Handler_Generate_size_parameter_witness:
  "ServiceCalls (snd (Handler_Generate (NewHandler (NewService stubEncode) 1048576) okWriter
      (exampleRequest ''POST'' [] ''https://example.com''))) = [(''https://example.com'', 256)]
   \<and> fst (Handler_Generate (NewHandler (NewService stubEncode) 1048576) okWriter
      (exampleRequest ''POST'' [(''size'', ''5000'')] ''https://example.com''))
     = http_Error ''Invalid size parameter: must be between 1 and 2048'' 400
   \<and> fst (Handler_Generate (NewHandler (NewService stubEncode) 1048576) okWriter
      (exampleRequest ''POST'' [(''size'', ''abc'')] ''https://example.com''))
     = http_Error ''Invalid size parameter: must be between 1 and 2048'' 400
   \<and> ServiceCalls (snd (Handler_Generate (NewHandler (NewService stubEncode) 1048576) okWriter
      (exampleRequest ''POST'' [(''size'', ''2048'')] ''https://example.com'')))
     = [(''https://example.com'', 2048)]"
proof -
  let ?b = "''https://example.com''"
  have read: "\<And>q. Method (exampleRequest ''POST'' q ?b) = ''POST''
      \<and> ReadAll_MaxBytesReader 1048576 (Body (exampleRequest ''POST'' q ?b))
            (BodyErr (exampleRequest ''POST'' q ?b)) = Inr ?b
      \<and> ?b \<noteq> []"
    by (simp add: exampleRequest_def ReadAll_MaxBytesReader_def)
  have a5000: "Atoi ''5000'' = (5000, None)" by (simp add: Atoi_def)
  have aabc: "snd (Atoi ''abc'') \<noteq> None" by (simp add: Atoi_def)
  have a2048: "Atoi ''2048'' = (2048, None)" by (simp add: Atoi_def)
  have absent: "ServiceCalls (snd (Handler_Generate (NewHandler (NewService stubEncode) 1048576)
      okWriter (exampleRequest ''POST'' [] ?b))) = [(?b, 256)]"
    using Handler_Generate_size_parameter
      [of "exampleRequest ''POST'' [] ?b" 1048576 ?b stubEncode okWriter] read [of "[]"]
    by (simp add: exampleRequest_def)
  have too_big: "fst (Handler_Generate (NewHandler (NewService stubEncode) 1048576) okWriter
      (exampleRequest ''POST'' [(''size'', ''5000'')] ?b))
     = http_Error ''Invalid size parameter: must be between 1 and 2048'' 400"
    using Handler_Generate_size_parameter
      [of "exampleRequest ''POST'' [(''size'', ''5000'')] ?b" 1048576 ?b stubEncode okWriter]
      read [of "[(''size'', ''5000'')]"] a5000
    by (simp add: exampleRequest_def Get_def)
  have no_number: "fst (Handler_Generate (NewHandler (NewService stubEncode) 1048576) okWriter
      (exampleRequest ''POST'' [(''size'', ''abc'')] ?b))
     = http_Error ''Invalid size parameter: must be between 1 and 2048'' 400"
    using Handler_Generate_size_parameter
      [of "exampleRequest ''POST'' [(''size'', ''abc'')] ?b" 1048576 ?b stubEncode okWriter]
      read [of "[(''size'', ''abc'')]"] aabc
    by (simp add: exampleRequest_def Get_def)
  have boundary: "ServiceCalls (snd (Handler_Generate (NewHandler (NewService stubEncode) 1048576)
      okWriter (exampleRequest ''POST'' [(''size'', ''2048'')] ?b))) = [(?b, 2048)]"
    using Handler_Generate_size_parameter
      [of "exampleRequest ''POST'' [(''size'', ''2048'')] ?b" 1048576 ?b stubEncode okWriter]
      read [of "[(''size'', ''2048'')]"] a2048
    by (simp add: exampleRequest_def Get_def)
  from absent too_big no_number boundary show ?thesis by blast
qed

text \<open>
  The claim as the spec words it has every present parameter parsed and every parse
  failure answered 400. In \<open>POST /generate?size=\<close> the parameter is present and its value,
  the empty string, is no decimal integer; the handler does not parse it and answers 200
  with an image of the default size.
\<close>

theorem Handler_Generate_size_parameter_counterexample:
  "map_of (Query (exampleRequest ''POST'' [(''size'', [])] ''hello'')) ''size'' = Some []
   \<and> snd (Atoi []) = Some (NumError ''Atoi'' [] ErrSyntax)
   \<and> StatusCode (fst (Handler_Generate exampleHandler okWriter
        (exampleRequest ''POST'' [(''size'', [])] ''hello''))) = 200
   \<and> ServiceCalls (snd (Handler_Generate exampleHandler okWriter
        (exampleRequest ''POST'' [(''size'', [])] ''hello''))) = [(''hello'', 256)]"
  by (simp add: exampleRequest_def exampleHandler_def okWriter_def NewHandler_def
      NewService_def Handler_Generate_def Handler_Generate_respond_def
      ReadAll_MaxBytesReader_def Get_def Atoi_def Generate_def stubEncode_def Let_def)

text \<open>
  Claim C10. A request whose \<open>size\<close> parameter is present with an empty value is handled
  exactly as the same request with no \<open>size\<close> parameter: response and events are equal.
  When the request is a POST whose body is read with no error and is not empty, the
  service is called with the default size 256 and the answer is the one to the service's
  result (200 with the image, or 500), never the 400 of a parse failure.
\<close>

theorem Handler_Generate_empty_size_value:
  assumes "map_of (Query r) ''size'' = Some []"
  shows "Handler_Generate h w r
       = Handler_Generate h w (r\<lparr>Query := filter (\<lambda>(k, v). k \<noteq> ''size'') (Query r)\<rparr>)
    \<and> map_of (filter (\<lambda>(k, v). k \<noteq> ''size'') (Query r)) ''size'' = None
    \<and> (Method r = ''POST''
        \<and> ReadAll_MaxBytesReader (maxBodySize h) (Body r) (BodyErr r) = Inr body \<and> body \<noteq> []
        \<longrightarrow> ServiceCall body 256 \<in> set (snd (Handler_Generate h w r))
          \<and> fst (Handler_Generate h w r)
              = (case fst (svc h body 256) of
                   Inl err \<Rightarrow> http_Error ''Internal server error'' 500
                 | Inr png \<Rightarrow> \<lparr>StatusCode = 200, Header = [(''Content-Type'', ''image/png'')],
                                Written = png\<rparr>)
          \<and> StatusCode (fst (Handler_Generate h w r)) \<noteq> 400)"
proof (intro conjI impI)
  have absent: "Get (filter (\<lambda>(k, v). k \<noteq> ''size'') (Query r)) ''size'' = []"
    by (simp add: Get_def map_of_filter_key)
  have empty: "Get (Query r) ''size'' = []"
    using assms by (simp add: Get_def)
  show "Handler_Generate h w r
       = Handler_Generate h w (r\<lparr>Query := filter (\<lambda>(k, v). k \<noteq> ''size'') (Query r)\<rparr>)"
    by (simp add: Handler_Generate_def Let_def absent empty respond_Query_update
        split: sum.split)
  show "map_of (filter (\<lambda>(k, v). k \<noteq> ''size'') (Query r)) ''size'' = None"
    by (rule map_of_filter_key)
  assume at_size: "Method r = ''POST''
      \<and> ReadAll_MaxBytesReader (maxBodySize h) (Body r) (BodyErr r) = Inr body \<and> body \<noteq> []"
  then have run: "Handler_Generate h w r
      = Handler_Generate_respond h w r body 256
          ([LogRecord DebugLevel ''Received QR generation request''
              [(''method'', StrAttr (Method r)),
               (''remote_addr'', StrAttr (RemoteAddr r)),
               (''user_agent'', StrAttr (UserAgent r)),
               (''content_length'', IntAttr (ContentLength r))],
            LogRecord DebugLevel ''Reading request body''
              [(''max_size'', IntAttr (maxBodySize h))],
            ReadAllCall (maxBodySize h),
            LogRecord DebugLevel ''Request body read successfully''
              [(''body_size'', IntAttr (int (length body)))],
            LogRecord DebugLevel ''Using default size'' [(''size'', IntAttr 256)]])"
    by (simp add: Handler_Generate_def Let_def empty)
  show "ServiceCall body 256 \<in> set (snd (Handler_Generate h w r))"
    unfolding run
    by (simp add: Handler_Generate_respond_def Let_def split: prod.split sum.split option.split)
  show result: "fst (Handler_Generate h w r)
      = (case fst (svc h body 256) of
           Inl err \<Rightarrow> http_Error ''Internal server error'' 500
         | Inr png \<Rightarrow> \<lparr>StatusCode = 200, Header = [(''Content-Type'', ''image/png'')],
                        Written = png\<rparr>)"
    unfolding run by (rule fst_respond)
  show "StatusCode (fst (Handler_Generate h w r)) \<noteq> 400"
    unfolding result by (simp add: http_Error_def split: sum.split)
qed

theorem Handler_Generate_empty_size_value_witness:
  "Handler_Generate exampleHandler okWriter (exampleRequest ''POST'' [(''size'', [])] ''hello'')
     = Handler_Generate exampleHandler okWriter (exampleRequest ''POST'' [] ''hello'')
   \<and> ServiceCall ''hello'' 256 \<in> set (snd (Handler_Generate exampleHandler okWriter
        (exampleRequest ''POST'' [(''size'', [])] ''hello'')))
   \<and> fst (Handler_Generate exampleHandler okWriter
        (exampleRequest ''POST'' [(''size'', [])] ''hello''))
     = \<lparr>StatusCode = 200, Header = [(''Content-Type'', ''image/png'')],
        Written = pngSignature @ ''hello''\<rparr>"
proof -
  let ?h = "exampleHandler"
  let ?r = "exampleRequest ''POST'' [(''size'', [])] ''hello''"
  have present: "map_of (Query ?r) ''size'' = Some []"
    by (simp add: exampleRequest_def)
  have at_size: "Method ?r = ''POST''
      \<and> ReadAll_MaxBytesReader (maxBodySize ?h) (Body ?r) (BodyErr ?r) = Inr ''hello''
      \<and> ''hello'' \<noteq> []"
    by (simp add: exampleRequest_def exampleHandler_def ReadAll_MaxBytesReader_def NewHandler_def)
  have served: "fst (svc ?h ''hello'' 256) = Inr (pngSignature @ ''hello'')"
    by (simp add: exampleHandler_def NewHandler_def NewService_def Generate_def stubEncode_def
        Let_def)
  have dropped: "?r\<lparr>Query := filter (\<lambda>(k, v). k \<noteq> ''size'') (Query ?r)\<rparr>
      = exampleRequest ''POST'' [] ''hello''"
    by (simp add: exampleRequest_def)
  note run = Handler_Generate_empty_size_value
    [where r = ?r and h = ?h and w = okWriter and body = "''hello''", OF present]
  from run have "Handler_Generate ?h okWriter ?r
      = Handler_Generate ?h okWriter
          (?r\<lparr>Query := filter (\<lambda>(k, v). k \<noteq> ''size'') (Query ?r)\<rparr>)"
    by (rule conjunct1)
  then have same: "Handler_Generate ?h okWriter ?r
      = Handler_Generate ?h okWriter (exampleRequest ''POST'' [] ''hello'')"
    by (simp only: dropped)
  from run at_size
  have called: "ServiceCall ''hello'' 256 \<in> set (snd (Handler_Generate ?h okWriter ?r))"
    by blast
  from run at_size have "fst (Handler_Generate ?h okWriter ?r)
      = (case fst (svc ?h ''hello'' 256) of
           Inl err \<Rightarrow> http_Error ''Internal server error'' 500
         | Inr png \<Rightarrow> \<lparr>StatusCode = 200, Header = [(''Content-Type'', ''image/png'')],
                        Written = png\<rparr>)"
    by blast
  then have answered: "fst (Handler_Generate ?h okWriter ?r)
      = \<lparr>StatusCode = 200, Header = [(''Content-Type'', ''image/png'')],
         Written = pngSignature @ ''hello''\<rparr>"
    by (simp only: served sum.case)
  from same called answered show ?thesis
    by blast
qed

section \<open>The request handler: health check\<close>

text \<open>
  Claim C9. For every request to \<open>/health\<close>, whatever its method (the handler looks at the
  method only to log it), \<open>HealthCheck\<close> answers 200 with content type
  \<open>application/json\<close> and the JSON body \<open>{"status":"ok"}\<close>, which the encoder ends with a
  newline. It calls neither the service nor the engine, and the answer and the events
  are the same whatever service the handler holds.
\<close>

theorem HealthCheck_always_ok:
  \<open>fst (HealthCheck h w r)
     = \<lparr>StatusCode = 200, Header = [(''Content-Type'', ''application/json'')],
        Written = ''{"status":"ok"}'' @ [CHR 0x0A]\<rparr>
   \<and> ServiceCalls (snd (HealthCheck h w r)) = []
   \<and> EncodeCalls (snd (HealthCheck h w r)) = []
   \<and> HealthCheck h w r = HealthCheck h' w r\<close>
  by (simp add: HealthCheck_def Let_def split: option.split)

end
